theory Spec2Isabelle
  imports Complex_Main
begin

section \<open>Stereo distance estimation: the geometry engine of distance\_calculation.py\<close>

text \<open>
  The class \<open>DistanceCalculation\<close> holds the camera configuration and offers two
  estimators of the distance to an object seen by two cameras. Python numbers (ints and
  floats) are modelled as real numbers, so arithmetic is exact: rounding, infinities and
  NaN are outside the model. Every raise of the source is a value of a sum type, and the
  \<open>try\<close>/\<open>except Exception\<close> of each method is the function that turns such a
  value into a result.
\<close>

subsection \<open>Values, faults and results\<close>

text \<open>
  The values a dictionary of the caller may hold: a number, \<open>None\<close>, or a string.
\<close>

datatype pyval = Num real | PNone | PStr string

text \<open>
  The faults the modelled operations raise: a missing dictionary key, an operation on a
  value that is not a number, a division by zero. All are subclasses of \<open>Exception\<close>.
\<close>

datatype pyerror = KeyError string | TypeError | ZeroDivisionError

text \<open>
  A details text is kept as the list of its pieces, in order: the literal parts of the
  (f-)string, the values formatted into it and the fault formatted into it. How Python
  prints a float is not modelled.
\<close>

datatype piece = Lit string | Val pyval | Exc pyerror

type_synonym pydict = "string \<rightharpoonup> pyval"

record dist_result =
  distance :: "real option"
  details :: "piece list"

record DistanceCalculation =
  fov_horizontal :: real
  cameras_distance :: real
  pixel_to_angle_ratio_x :: "real option"
  focal_length :: real

subsection \<open>Primitive operations\<close>

definition radians :: "real \<Rightarrow> real" where
  "radians d = d * pi / 180"

text \<open>\<open>d[k]\<close>: raises \<open>KeyError\<close> when the key is missing.\<close>

definition getitem :: "pydict \<Rightarrow> string \<Rightarrow> pyerror + pyval" where
  "getitem d k = (case d k of None \<Rightarrow> Inl (KeyError k) | Some v \<Rightarrow> Inr v)"

text \<open>\<open>v < 0\<close> and \<open>v > 0\<close>: raise \<open>TypeError\<close> on \<open>None\<close> and on a string.\<close>

definition lt0 :: "pyval \<Rightarrow> pyerror + bool" where
  "lt0 v = (case v of Num x \<Rightarrow> Inr (x < 0) | _ \<Rightarrow> Inl TypeError)"

definition gt0 :: "pyval \<Rightarrow> pyerror + bool" where
  "gt0 v = (case v of Num x \<Rightarrow> Inr (x > 0) | _ \<Rightarrow> Inl TypeError)"

text \<open>\<open>a and b\<close> on comparisons: \<open>b\<close> is evaluated only when \<open>a\<close> is true.\<close>

definition py_and :: "pyerror + bool \<Rightarrow> pyerror + bool \<Rightarrow> pyerror + bool" where
  "py_and a b = (case a of Inl e \<Rightarrow> Inl e | Inr t \<Rightarrow> if t then b else Inr False)"

text \<open>\<open>abs(v)\<close> of a value; in the source it is reached only after a comparison succeeded.\<close>

definition py_abs :: "pyval \<Rightarrow> pyerror + real" where
  "py_abs v = (case v of Num x \<Rightarrow> Inr \<bar>x\<bar> | _ \<Rightarrow> Inl TypeError)"

text \<open>\<open>a - b\<close> on two values.\<close>

definition py_sub :: "pyval \<Rightarrow> pyval \<Rightarrow> pyerror + real" where
  "py_sub a b = (case (a, b) of (Num x, Num y) \<Rightarrow> Inr (x - y) | _ \<Rightarrow> Inl TypeError)"

subsection \<open>Construction and the pixel-to-angle ratio\<close>

text \<open>
  \<open>__init__\<close>: the focal length in pixels for a reference width of 640 pixels; the ratio
  starts as \<open>None\<close>.
\<close>

definition init :: "real \<Rightarrow> real \<Rightarrow> DistanceCalculation" where
  "init fov camdist =
     \<lparr> fov_horizontal = fov,
       cameras_distance = camdist,
       pixel_to_angle_ratio_x = None,
       focal_length = 640 / (2 * tan (radians (fov / 2))) \<rparr>"

text \<open>
  \<open>update_pixel_to_angle_ratio\<close>: the division raises for a width of zero, and then the
  object is left as it was. The method has no \<open>return\<close>, so what it gives back is the
  updated object only.
\<close>

definition update_pixel_to_angle_ratio ::
  "DistanceCalculation \<Rightarrow> real \<Rightarrow> pyerror + DistanceCalculation" where
  "update_pixel_to_angle_ratio self res_width =
     (if res_width = 0 then Inl ZeroDivisionError
      else Inr (self\<lparr>pixel_to_angle_ratio_x := Some (fov_horizontal self / res_width)\<rparr>))"

subsection \<open>Triangulation\<close>

text \<open>
  The classification of lines 49 to 66: the three known configurations give the case text
  and the two internal angles; everything else is \<open>None\<close>, the unknown case. A comparison
  on a value that is not a number raises.
\<close>

definition classify :: "pyval \<Rightarrow> pyval \<Rightarrow> pyerror + (string \<times> real \<times> real) option" where
  "classify l r =
     (case py_and (lt0 l) (gt0 r) of Inl e \<Rightarrow> Inl e | Inr between \<Rightarrow>
      if between then
        (case py_abs l of Inl e \<Rightarrow> Inl e | Inr al \<Rightarrow>
         case py_abs r of Inl e \<Rightarrow> Inl e | Inr ar \<Rightarrow>
           Inr (Some (''between the cameras'', 90 - al, 90 - ar)))
      else
     (case py_and (gt0 l) (gt0 r) of Inl e \<Rightarrow> Inl e | Inr left_of \<Rightarrow>
      if left_of then
        (case py_abs l of Inl e \<Rightarrow> Inl e | Inr al \<Rightarrow>
         case py_abs r of Inl e \<Rightarrow> Inl e | Inr ar \<Rightarrow>
           Inr (Some (''to the left of the left camera'', 90 + al, 90 - ar)))
      else
     (case py_and (lt0 l) (lt0 r) of Inl e \<Rightarrow> Inl e | Inr right_of \<Rightarrow>
      if right_of then
        (case py_abs l of Inl e \<Rightarrow> Inl e | Inr al \<Rightarrow>
         case py_abs r of Inl e \<Rightarrow> Inl e | Inr ar \<Rightarrow>
           Inr (Some (''to the right of the right camera'', 90 - al, 90 + ar)))
      else Inr None)))"

text \<open>Lines 69 to 106: from the case and the two internal angles to the result.\<close>

definition triangulate :: "real \<Rightarrow> string \<Rightarrow> real \<Rightarrow> real \<Rightarrow> dist_result" where
  "triangulate baseline case_text internal_angle_left_x internal_angle_right_x =
     (let internal_angle_obj = 180 - (internal_angle_left_x + internal_angle_right_x) in
      if internal_angle_obj \<le> 0 then
        \<lparr> distance = None,
          details = [Lit ''Invalid internal angles leading to degenerate triangle.''] \<rparr>
      else
        let internal_angle_right_x_rad = radians internal_angle_right_x;
            internal_angle_left_x_rad = radians internal_angle_left_x;
            internal_angle_obj_rad = radians internal_angle_obj;
            denominator = (sin internal_angle_obj_rad)\<^sup>2
        in
        if denominator = 0 then
          \<lparr> distance = None,
            details = [Lit ''Division by zero encountered in distance calculation.''] \<rparr>
        else
          let numerator = (sin internal_angle_left_x_rad)\<^sup>2 + (sin internal_angle_right_x_rad)\<^sup>2;
              value_inside_sqrt = 2 * (numerator / denominator) - 1
          in
          if value_inside_sqrt < 0 then
            \<lparr> distance = None,
              details = [Lit ''Invalid value inside square root in distance calculation.''] \<rparr>
          else
            \<lparr> distance = Some ((baseline / 2) * sqrt value_inside_sqrt),
              details = [Lit (''Object is '' @ case_text @ ''.'')] \<rparr>)"

text \<open>
  The body of the \<open>try\<close> block of \<open>calculate_distance\<close>: the six dictionary reads in the
  order of the source, the classification, then the triangulation.
\<close>

definition calculate_distance_body ::
  "DistanceCalculation \<Rightarrow> pydict \<Rightarrow> pydict \<Rightarrow> pyerror + dist_result" where
  "calculate_distance_body self left_image right_image =
     (case getitem left_image ''img_center_x'' of Inl e \<Rightarrow> Inl e | Inr img_center_left_x \<Rightarrow>
      case getitem left_image ''obj_center_x'' of Inl e \<Rightarrow> Inl e | Inr obj_center_left_x \<Rightarrow>
      case getitem left_image ''angle_of_view_x'' of Inl e \<Rightarrow> Inl e | Inr angle_of_view_left_x \<Rightarrow>
      case getitem right_image ''img_center_x'' of Inl e \<Rightarrow> Inl e | Inr img_center_right_x \<Rightarrow>
      case getitem right_image ''obj_center_x'' of Inl e \<Rightarrow> Inl e | Inr obj_center_right_x \<Rightarrow>
      case getitem right_image ''angle_of_view_x'' of Inl e \<Rightarrow> Inl e | Inr angle_of_view_right_x \<Rightarrow>
      case classify angle_of_view_left_x angle_of_view_right_x of
        Inl e \<Rightarrow> Inl e
      | Inr None \<Rightarrow>
          Inr \<lparr> distance = None,
                details = [Lit ''Unknown case based on angles: left='', Val angle_of_view_left_x,
                           Lit '', right='', Val angle_of_view_right_x] \<rparr>
      | Inr (Some (case_text, internal_angle_left_x, internal_angle_right_x)) \<Rightarrow>
          Inr (triangulate (cameras_distance self) case_text
                 internal_angle_left_x internal_angle_right_x))"

text \<open>\<open>calculate_distance\<close>: the body under its \<open>except Exception\<close> handler.\<close>

definition calculate_distance :: "DistanceCalculation \<Rightarrow> pydict \<Rightarrow> pydict \<Rightarrow> dist_result" where
  "calculate_distance self left_image right_image =
     (case calculate_distance_body self left_image right_image of
        Inl e \<Rightarrow> \<lparr> distance = None,
                   details = [Lit ''Error during distance calculation: '', Exc e] \<rparr>
      | Inr res \<Rightarrow> res)"

subsection \<open>The disparity estimator\<close>

definition calculate_distance_using_disparity_body ::
  "DistanceCalculation \<Rightarrow> pydict \<Rightarrow> pydict \<Rightarrow> pyerror + dist_result" where
  "calculate_distance_using_disparity_body self left_image right_image =
     (case getitem left_image ''obj_center_x'' of Inl e \<Rightarrow> Inl e | Inr obj_center_left_x \<Rightarrow>
      case getitem right_image ''obj_center_x'' of Inl e \<Rightarrow> Inl e | Inr obj_center_right_x \<Rightarrow>
      case py_sub obj_center_left_x obj_center_right_x of Inl e \<Rightarrow> Inl e | Inr disparity \<Rightarrow>
        if disparity = 0 then
          Inr \<lparr> distance = None,
                details = [Lit ''Disparity is zero, unable to calculate distance.''] \<rparr>
        else
          Inr \<lparr> distance = Some ((focal_length self * cameras_distance self) / disparity),
                details = [Lit ''Distance calculated using disparity and focal length.''] \<rparr>)"

definition calculate_distance_using_disparity ::
  "DistanceCalculation \<Rightarrow> pydict \<Rightarrow> pydict \<Rightarrow> dist_result" where
  "calculate_distance_using_disparity self left_image right_image =
     (case calculate_distance_using_disparity_body self left_image right_image of
        Inl e \<Rightarrow> \<lparr> distance = None,
                   details = [Lit ''Error calculating distance using disparity: '', Exc e] \<rparr>
      | Inr res \<Rightarrow> res)"

text \<open>An observation record as the caller of the application builds it.\<close>

definition observation :: "real \<Rightarrow> real \<Rightarrow> real \<Rightarrow> pydict" where
  "observation img_center obj_center angle =
     [''img_center_x'' \<mapsto> Num img_center, ''obj_center_x'' \<mapsto> Num obj_center,
      ''angle_of_view_x'' \<mapsto> Num angle]"

text \<open>
  A dictionary that has the three keys the triangulation reads and holds the number
  \<open>angle\<close> under \<open>angle_of_view_x\<close>.
\<close>

definition observes :: "pydict \<Rightarrow> real \<Rightarrow> bool" where
  "observes img angle \<longleftrightarrow>
     img ''img_center_x'' \<noteq> None \<and> img ''obj_center_x'' \<noteq> None \<and>
     img ''angle_of_view_x'' = Some (Num angle)"

text \<open>A dictionary that has the three keys the triangulation reads, whatever they hold.\<close>

definition has_keys :: "pydict \<Rightarrow> bool" where
  "has_keys img \<longleftrightarrow>
     img ''img_center_x'' \<noteq> None \<and> img ''obj_center_x'' \<noteq> None \<and>
     img ''angle_of_view_x'' \<noteq> None"

subsection \<open>The object over a sequence of calls\<close>

text \<open>
  The three methods a caller can invoke after construction, and the object each leaves
  behind. Only \<open>update_pixel_to_angle_ratio\<close> assigns an attribute; when it raises, the
  assignment has not happened. The two distance methods assign nothing.
\<close>

datatype call =
    UpdateRatio real
  | CalculateDistance pydict pydict
  | CalculateDistanceUsingDisparity pydict pydict

definition after_call :: "DistanceCalculation \<Rightarrow> call \<Rightarrow> DistanceCalculation" where
  "after_call self c =
     (case c of
        UpdateRatio res_width \<Rightarrow>
          (case update_pixel_to_angle_ratio self res_width of
             Inl e \<Rightarrow> self | Inr self' \<Rightarrow> self')
      | CalculateDistance left_image right_image \<Rightarrow> self
      | CalculateDistanceUsingDisparity left_image right_image \<Rightarrow> self)"

subsection \<open>A polynomial for bounding the sine\<close>

text \<open>
  The Taylor polynomial of the sine of degree 9, used only to enclose the focal length of
  the default configuration between two decimals.
\<close>

definition sin_poly :: "real \<Rightarrow> real" where
  "sin_poly x = x - x^3 / 6 + x^5 / 120 - x^7 / 5040 + x^9 / 362880"

section \<open>Properties\<close>

subsection \<open>Auxiliary facts\<close>

lemma observes_observation: "observes (observation c x a) a"
  by (simp add: observes_def observation_def)

lemma py_and_Inr: "py_and (Inr a) (Inr b) = Inr (a \<and> b)"
  by (simp add: py_and_def)

lemma classify_Num:
  "classify (Num l) (Num r) =
     Inr (if l < 0 \<and> r > 0 then Some (''between the cameras'', 90 - \<bar>l\<bar>, 90 - \<bar>r\<bar>)
          else if l > 0 \<and> r > 0 then Some (''to the left of the left camera'', 90 + \<bar>l\<bar>, 90 - \<bar>r\<bar>)
          else if l < 0 \<and> r < 0 then Some (''to the right of the right camera'', 90 - \<bar>l\<bar>, 90 + \<bar>r\<bar>)
          else None)"
  by (simp add: classify_def py_and_Inr lt0_def gt0_def py_abs_def)

lemma calculate_distance_body_observes:
  assumes "observes left_image l" and "observes right_image r"
  shows "calculate_distance_body self left_image right_image =
     (case classify (Num l) (Num r) of
        Inl e \<Rightarrow> Inl e
      | Inr None \<Rightarrow>
          Inr \<lparr> distance = None,
                details = [Lit ''Unknown case based on angles: left='', Val (Num l),
                           Lit '', right='', Val (Num r)] \<rparr>
      | Inr (Some (c, a, b)) \<Rightarrow> Inr (triangulate (cameras_distance self) c a b))"
proof -
  from assms(1) obtain v1 v2 where
    L: "left_image ''img_center_x'' = Some v1" "left_image ''obj_center_x'' = Some v2"
       "left_image ''angle_of_view_x'' = Some (Num l)"
    by (auto simp add: observes_def)
  from assms(2) obtain w1 w2 where
    R: "right_image ''img_center_x'' = Some w1" "right_image ''obj_center_x'' = Some w2"
       "right_image ''angle_of_view_x'' = Some (Num r)"
    by (auto simp add: observes_def)
  show ?thesis
    unfolding calculate_distance_body_def getitem_def by (simp only: L R option.case sum.case)
qed

lemma calculate_distance_known:
  assumes "observes left_image l" and "observes right_image r"
    and "classify (Num l) (Num r) = Inr (Some (c, a, b))"
  shows "calculate_distance self left_image right_image = triangulate (cameras_distance self) c a b"
  by (simp add: calculate_distance_def calculate_distance_body_observes [OF assms(1,2)] assms(3))

lemma calculate_distance_unknown:
  assumes "observes left_image l" and "observes right_image r"
    and "classify (Num l) (Num r) = Inr None"
  shows "calculate_distance self left_image right_image =
          \<lparr> distance = None,
            details = [Lit ''Unknown case based on angles: left='', Val (Num l),
                       Lit '', right='', Val (Num r)] \<rparr>"
  by (simp add: calculate_distance_def calculate_distance_body_observes [OF assms(1,2)] assms(3))

lemma median_numerator:
  fixes A B :: real
  shows "2 * ((sin A)\<^sup>2 + (sin B)\<^sup>2) - (sin (A + B))\<^sup>2 =
         (sin A - sin B * cos (A + B))\<^sup>2 + (sin B * sin (A + B))\<^sup>2"
proof -
  have ca: "(cos A)\<^sup>2 = 1 - (sin A)\<^sup>2" by (simp add: cos_squared_eq)
  have cb: "(cos B)\<^sup>2 = 1 - (sin B)\<^sup>2" by (simp add: cos_squared_eq)
  show ?thesis
    unfolding sin_add cos_add
    using ca cb by algebra
qed

lemma median_numerator_pos:
  fixes A B :: real
  assumes "sin (A + B) \<noteq> 0"
  shows "0 < 2 * ((sin A)\<^sup>2 + (sin B)\<^sup>2) - (sin (A + B))\<^sup>2"
proof (cases "sin B = 0")
  case True
  with assms have "sin A \<noteq> 0" by (auto simp add: sin_add)
  then have "0 < (sin A)\<^sup>2" by simp
  with True show ?thesis unfolding median_numerator by simp
next
  case False
  with assms have "0 < (sin B * sin (A + B))\<^sup>2" by simp
  moreover have "0 \<le> (sin A - sin B * cos (A + B))\<^sup>2" by simp
  ultimately show ?thesis unfolding median_numerator by linarith
qed

lemma value_inside_sqrt_pos:
  fixes a b :: real
  assumes "sin (radians (180 - (a + b))) \<noteq> 0"
  shows "0 < 2 * (((sin (radians a))\<^sup>2 + (sin (radians b))\<^sup>2) / (sin (radians (180 - (a + b))))\<^sup>2) - 1"
proof -
  have eq: "radians (180 - (a + b)) = pi - (radians a + radians b)"
    by (simp add: radians_def field_simps)
  have s: "sin (radians (180 - (a + b))) = sin (radians a + radians b)"
    unfolding eq by simp
  from assms s have nz: "sin (radians a + radians b) \<noteq> 0" by simp
  have d: "0 < (sin (radians a + radians b))\<^sup>2" using nz by simp
  have "0 < 2 * ((sin (radians a))\<^sup>2 + (sin (radians b))\<^sup>2) - (sin (radians a + radians b))\<^sup>2"
    by (rule median_numerator_pos [OF nz])
  then have "1 < 2 * ((sin (radians a))\<^sup>2 + (sin (radians b))\<^sup>2) / (sin (radians a + radians b))\<^sup>2"
    using d by (simp add: field_simps)
  then show ?thesis unfolding s by simp
qed

lemma sin_radians_pos: "0 < d \<Longrightarrow> d < 180 \<Longrightarrow> 0 < sin (radians d)"
  by (rule sin_gt_zero) (simp_all add: radians_def field_simps)

lemma triangulate_degenerate:
  "180 - (a + b) \<le> 0 \<Longrightarrow>
   triangulate baseline c a b =
     \<lparr> distance = None,
       details = [Lit ''Invalid internal angles leading to degenerate triangle.''] \<rparr>"
  by (simp add: triangulate_def)

lemma triangulate_proper:
  "0 < 180 - (a + b) \<Longrightarrow>
   triangulate baseline c a b =
     (if (sin (radians (180 - (a + b))))\<^sup>2 = 0 then
        \<lparr> distance = None,
          details = [Lit ''Division by zero encountered in distance calculation.''] \<rparr>
      else if 2 * (((sin (radians a))\<^sup>2 + (sin (radians b))\<^sup>2) /
                   (sin (radians (180 - (a + b))))\<^sup>2) - 1 < 0 then
        \<lparr> distance = None,
          details = [Lit ''Invalid value inside square root in distance calculation.''] \<rparr>
      else
        \<lparr> distance = Some ((baseline / 2) *
            sqrt (2 * (((sin (radians a))\<^sup>2 + (sin (radians b))\<^sup>2) /
                       (sin (radians (180 - (a + b))))\<^sup>2) - 1)),
          details = [Lit (''Object is '' @ c @ ''.'')] \<rparr>)"
  by (simp add: triangulate_def Let_def)


lemma calculate_distance_body_has_keys:
  assumes "has_keys left_image" and "has_keys right_image"
  shows "\<exists>vl vr. left_image ''angle_of_view_x'' = Some vl \<and>
           right_image ''angle_of_view_x'' = Some vr \<and>
           calculate_distance_body self left_image right_image =
     (case classify vl vr of
        Inl e \<Rightarrow> Inl e
      | Inr None \<Rightarrow>
          Inr \<lparr> distance = None,
                details = [Lit ''Unknown case based on angles: left='', Val vl,
                           Lit '', right='', Val vr] \<rparr>
      | Inr (Some (c, a, b)) \<Rightarrow> Inr (triangulate (cameras_distance self) c a b))"
proof -
  from assms(1) obtain v1 v2 vl where
    L: "left_image ''img_center_x'' = Some v1" "left_image ''obj_center_x'' = Some v2"
       "left_image ''angle_of_view_x'' = Some vl"
    by (auto simp add: has_keys_def)
  from assms(2) obtain w1 w2 vr where
    R: "right_image ''img_center_x'' = Some w1" "right_image ''obj_center_x'' = Some w2"
       "right_image ''angle_of_view_x'' = Some vr"
    by (auto simp add: has_keys_def)
  have "calculate_distance_body self left_image right_image =
     (case classify vl vr of
        Inl e \<Rightarrow> Inl e
      | Inr None \<Rightarrow>
          Inr \<lparr> distance = None,
                details = [Lit ''Unknown case based on angles: left='', Val vl,
                           Lit '', right='', Val vr] \<rparr>
      | Inr (Some (c, a, b)) \<Rightarrow> Inr (triangulate (cameras_distance self) c a b))"
    unfolding calculate_distance_body_def getitem_def by (simp only: L R option.case sum.case)
  with L(3) R(3) show ?thesis by blast
qed

lemma has_keys_observation: "has_keys (observation c x a)"
  by (simp add: has_keys_def observation_def)

lemma observation_angle: "observation c x a ''angle_of_view_x'' = Some (Num a)"
  by (simp add: observation_def)

lemma disparity_body_Num:
  assumes "left_image ''obj_center_x'' = Some (Num xl)"
    and "right_image ''obj_center_x'' = Some (Num xr)"
  shows "calculate_distance_using_disparity_body self left_image right_image =
     (if xl - xr = 0 then
        Inr \<lparr> distance = None,
              details = [Lit ''Disparity is zero, unable to calculate distance.''] \<rparr>
      else
        Inr \<lparr> distance = Some ((focal_length self * cameras_distance self) / (xl - xr)),
              details = [Lit ''Distance calculated using disparity and focal length.''] \<rparr>)"
  unfolding calculate_distance_using_disparity_body_def getitem_def py_sub_def
  by (simp only: assms option.case sum.case pyval.case prod.case)



lemma sin_poly_sum: "(\<Sum>m<11. sin_coeff m * x ^ m) = sin_poly x"
  by (simp add: sin_poly_def eval_nat_numeral sin_coeff_Suc cos_coeff_Suc)

lemma sin_poly_bounds:
  assumes "0 \<le> x"
  shows "sin_poly x - x^11 / 39916800 \<le> sin x" and "sin x \<le> sin_poly x + x^11 / 39916800"
proof -
  have "\<bar>sin x - (\<Sum>m<11. sin_coeff m * x ^ m)\<bar> \<le> inverse (fact 11) * \<bar>x\<bar> ^ 11"
    by (rule Maclaurin_sin_bound)
  moreover have "inverse (fact 11) * \<bar>x\<bar> ^ 11 = x^11 / 39916800"
    using assms by (simp add: fact_numeral field_simps)
  ultimately have b: "\<bar>sin x - sin_poly x\<bar> \<le> x^11 / 39916800"
    by (simp add: sin_poly_sum)
  from b show "sin_poly x - x^11 / 39916800 \<le> sin x" by linarith
  from b show "sin x \<le> sin_poly x + x^11 / 39916800" by linarith
qed

lemma pi_lower: "3.14159 < pi"
proof (rule ccontr)
  assume "\<not> 3.14159 < pi"
  then have le: "pi / 6 \<le> 3.14159 / 6" by simp
  have "(3.14159::real) / 6 \<le> 1" by simp
  also have "1 \<le> pi / 2" using pi_ge_two by simp
  finally have up: "(3.14159::real) / 6 \<le> pi / 2" .
  have "sin (pi / 6) \<le> sin (3.14159 / 6)"
    by (rule sin_monotone_2pi_le [OF _ le up]) (simp add: field_simps)
  then have h: "1 / 2 \<le> sin (3.14159 / 6 :: real)" by (simp add: sin_30)
  have "sin (3.14159 / 6 :: real) \<le> sin_poly (3.14159 / 6) + (3.14159 / 6)^11 / 39916800"
    by (rule sin_poly_bounds) simp
  also have "\<dots> < 1 / 2" by (simp add: sin_poly_def power_divide)
  finally show False using h by simp
qed

lemma pi_upper: "pi < 3.1416"
proof (rule ccontr)
  assume "\<not> pi < 3.1416"
  then have le: "3.1416 / 6 \<le> pi / 6" by simp
  have "sin (3.1416 / 6) \<le> sin (pi / 6)"
  proof (rule sin_monotone_2pi_le [OF _ le])
    have "- (pi / 2) \<le> 0" by simp
    also have "(0::real) \<le> 3.1416 / 6" by simp
    finally show "- (pi / 2) \<le> 3.1416 / 6" .
    show "pi / 6 \<le> pi / 2" by simp
  qed
  then have h: "sin (3.1416 / 6 :: real) \<le> 1 / 2" by (simp add: sin_30)
  have "1 / 2 < sin_poly (3.1416 / 6) - (3.1416 / 6)^11 / (39916800::real)"
    by (simp add: sin_poly_def power_divide)
  also have "\<dots> \<le> sin (3.1416 / 6 :: real)"
    by (rule sin_poly_bounds) simp
  finally show False using h by simp
qed

lemma radians_half_fov_55: "radians (55 / 2) = 11 * pi / 72"
  by (simp add: radians_def)

lemma sin_half_fov_55_bounds:
  shows "0.461746 \<le> sin (11 * pi / 72)" and "sin (11 * pi / 72) \<le> 0.461756"
proof -
  let ?lo = "11 * 3.14159 / 72 :: real"
  let ?hi = "11 * 3.1416 / 72 :: real"
  have lo: "?lo \<le> 11 * pi / 72" using pi_lower by simp
  have hi: "11 * pi / 72 \<le> ?hi" using pi_upper by simp
  have neg: "- (pi / 2) \<le> 0" by simp
  have "?hi \<le> 1" by simp
  also have "1 \<le> pi / 2" using pi_ge_two by simp
  finally have hi2: "?hi \<le> pi / 2" .
  have "0.461746 \<le> sin_poly ?lo - ?lo^11 / 39916800"
    by (simp add: sin_poly_def power_divide)
  also have "\<dots> \<le> sin ?lo" by (rule sin_poly_bounds) simp
  also have "\<dots> \<le> sin (11 * pi / 72)"
  proof (rule sin_monotone_2pi_le [OF _ lo])
    have "(0::real) \<le> ?lo" by simp
    with neg show "- (pi / 2) \<le> ?lo" by linarith
    show "11 * pi / 72 \<le> pi / 2" by simp
  qed
  finally show "0.461746 \<le> sin (11 * pi / 72)" .
  have "sin (11 * pi / 72) \<le> sin ?hi"
  proof (rule sin_monotone_2pi_le [OF _ hi hi2])
    have "(0::real) \<le> 11 * pi / 72" by simp
    with neg show "- (pi / 2) \<le> 11 * pi / 72" by linarith
  qed
  also have "\<dots> \<le> sin_poly ?hi + ?hi^11 / 39916800" by (rule sin_poly_bounds) simp
  also have "\<dots> \<le> 0.461756" by (simp add: sin_poly_def power_divide)
  finally show "sin (11 * pi / 72) \<le> 0.461756" .
qed

lemma focal_length_55_bounds:
  shows "614.70 \<le> focal_length (init 55 camdist)"
    and "focal_length (init 55 camdist) \<le> 614.72"
proof -
  let ?x = "11 * pi / 72 :: real"
  let ?s = "sin ?x" and ?c = "cos ?x"
  have s_lo: "0.461746 \<le> ?s" by (rule sin_half_fov_55_bounds(1))
  have s_hi: "?s \<le> 0.461756" by (rule sin_half_fov_55_bounds(2))
  have s_pos: "0 < ?s" by (rule sin_gt_zero) simp_all
  have c_pos: "0 < ?c" by (rule cos_gt_zero) simp_all
  have c2: "?c\<^sup>2 = 1 - ?s\<^sup>2" by (simp add: cos_squared_eq)
  have f: "focal_length (init 55 camdist) = 320 * ?c / ?s"
    by (simp add: init_def radians_half_fov_55 tan_def)
  have "(0.461746::real)\<^sup>2 \<le> ?s\<^sup>2"
    using s_lo by (intro power_mono) simp_all
  then have "(320 * ?c)\<^sup>2 \<le> (614.72 * ?s)\<^sup>2"
    unfolding power_mult_distrib c2 by (simp add: power2_eq_square)
  then have "320 * ?c \<le> 614.72 * ?s"
    by (rule power2_le_imp_le) (use s_pos in simp)
  then show "focal_length (init 55 camdist) \<le> 614.72"
    unfolding f using s_pos by (simp add: field_simps)
  have "?s\<^sup>2 \<le> (0.461756::real)\<^sup>2"
    using s_hi s_pos by (intro power_mono) simp_all
  then have "(614.70 * ?s)\<^sup>2 \<le> (320 * ?c)\<^sup>2"
    unfolding power_mult_distrib c2 by (simp add: power2_eq_square)
  then have "614.70 * ?s \<le> 320 * ?c"
    by (rule power2_le_imp_le) (use c_pos in simp)
  then show "614.70 \<le> focal_length (init 55 camdist)"
    unfolding f using s_pos by (simp add: field_simps)
qed

lemma after_call_focal_length: "focal_length (after_call self c) = focal_length self"
  by (cases c) (simp_all add: after_call_def update_pixel_to_angle_ratio_def)

lemma foldl_after_call_focal_length:
  "focal_length (foldl after_call self calls) = focal_length self"
  by (induction calls arbitrary: self) (simp_all add: after_call_focal_length)

subsection \<open>Classification of the configuration\<close>

text \<open>
  C1. For two observations whose \<open>angle_of_view_x\<close> are the numbers \<open>l\<close> (left) and
  \<open>r\<close> (right): when \<open>l < 0\<close> and \<open>r > 0\<close> the case is "between the cameras" with
  internal angles \<open>90 - |l|\<close> and \<open>90 - |r|\<close>; when both are positive the case is
  "to the left of the left camera" with \<open>90 + |l|\<close> and \<open>90 - |r|\<close>; when both are
  negative the case is "to the right of the right camera" with \<open>90 - |l|\<close> and
  \<open>90 + |r|\<close>. In each case \<open>calculate_distance\<close> continues with exactly that case
  text and those two angles.
\<close>

theorem calculate_distance_classification:
  assumes "observes left_image l" and "observes right_image r"
  shows "(l < 0 \<and> r > 0 \<longrightarrow>
            classify (Num l) (Num r) = Inr (Some (''between the cameras'', 90 - \<bar>l\<bar>, 90 - \<bar>r\<bar>)) \<and>
            calculate_distance self left_image right_image =
              triangulate (cameras_distance self) ''between the cameras'' (90 - \<bar>l\<bar>) (90 - \<bar>r\<bar>)) \<and>
         (l > 0 \<and> r > 0 \<longrightarrow>
            classify (Num l) (Num r) =
              Inr (Some (''to the left of the left camera'', 90 + \<bar>l\<bar>, 90 - \<bar>r\<bar>)) \<and>
            calculate_distance self left_image right_image =
              triangulate (cameras_distance self) ''to the left of the left camera''
                (90 + \<bar>l\<bar>) (90 - \<bar>r\<bar>)) \<and>
         (l < 0 \<and> r < 0 \<longrightarrow>
            classify (Num l) (Num r) =
              Inr (Some (''to the right of the right camera'', 90 - \<bar>l\<bar>, 90 + \<bar>r\<bar>)) \<and>
            calculate_distance self left_image right_image =
              triangulate (cameras_distance self) ''to the right of the right camera''
                (90 - \<bar>l\<bar>) (90 + \<bar>r\<bar>))"
proof (intro conjI impI)
  assume "l < 0 \<and> r > 0"
  then show c: "classify (Num l) (Num r) = Inr (Some (''between the cameras'', 90 - \<bar>l\<bar>, 90 - \<bar>r\<bar>))"
    by (simp add: classify_Num)
  show "calculate_distance self left_image right_image =
          triangulate (cameras_distance self) ''between the cameras'' (90 - \<bar>l\<bar>) (90 - \<bar>r\<bar>)"
    by (rule calculate_distance_known [OF assms c])
next
  assume "l > 0 \<and> r > 0"
  then show c: "classify (Num l) (Num r) =
      Inr (Some (''to the left of the left camera'', 90 + \<bar>l\<bar>, 90 - \<bar>r\<bar>))"
    by (simp add: classify_Num)
  show "calculate_distance self left_image right_image =
          triangulate (cameras_distance self) ''to the left of the left camera''
            (90 + \<bar>l\<bar>) (90 - \<bar>r\<bar>)"
    by (rule calculate_distance_known [OF assms c])
next
  assume "l < 0 \<and> r < 0"
  then show c: "classify (Num l) (Num r) =
      Inr (Some (''to the right of the right camera'', 90 - \<bar>l\<bar>, 90 + \<bar>r\<bar>))"
    by (simp add: classify_Num)
  show "calculate_distance self left_image right_image =
          triangulate (cameras_distance self) ''to the right of the right camera''
            (90 - \<bar>l\<bar>) (90 + \<bar>r\<bar>)"
    by (rule calculate_distance_known [OF assms c])
qed

theorem calculate_distance_classification_witness:
  "observes (observation 320 400 (-10)) (-10) \<and> observes (observation 320 240 8) 8 \<and>
   observes (observation 320 240 10) 10 \<and> observes (observation 320 400 (-8)) (-8) \<and>
   classify (Num (-10)) (Num 8) = Inr (Some (''between the cameras'', 80, 82)) \<and>
   classify (Num 10) (Num 8) = Inr (Some (''to the left of the left camera'', 100, 82)) \<and>
   classify (Num (-10)) (Num (-8)) = Inr (Some (''to the right of the right camera'', 80, 98))"
  using calculate_distance_classification
          [where left_image = "observation 320 400 (-10)" and l = "-10" and
                 right_image = "observation 320 240 8" and r = 8 and self = "init 55 0.265"]
        calculate_distance_classification
          [where left_image = "observation 320 240 10" and l = 10 and
                 right_image = "observation 320 240 8" and r = 8 and self = "init 55 0.265"]
        calculate_distance_classification
          [where left_image = "observation 320 400 (-10)" and l = "-10" and
                 right_image = "observation 320 400 (-8)" and r = "-8" and self = "init 55 0.265"]
  by (simp add: observes_observation)

subsection \<open>The triangulation formula\<close>

text \<open>
  C2. For two observations with numeric angles that fall in one of the three known cases,
  with internal angles \<open>a\<close> and \<open>b\<close> and a positive object angle \<open>180 - (a + b)\<close>, the
  result of \<open>calculate_distance\<close> is decided by \<open>denom = sin(radians(180 - (a + b)))^2\<close>
  and \<open>value_inside_sqrt = 2 * (sin(radians a)^2 + sin(radians b)^2) / denom - 1\<close>: the
  distance is absent when \<open>denom\<close> is zero, absent when \<open>value_inside_sqrt\<close> is negative,
  and otherwise it is \<open>(cameras_distance / 2) * sqrt value_inside_sqrt\<close> with the details
  text "Object is <case>.".
\<close>

theorem calculate_distance_formula:
  assumes "observes left_image l" and "observes right_image r"
    and "classify (Num l) (Num r) = Inr (Some (case_text, a, b))"
    and "0 < 180 - (a + b)"
  shows "calculate_distance self left_image right_image =
     (let denom = (sin (radians (180 - (a + b))))\<^sup>2;
          value_inside_sqrt = 2 * ((sin (radians a))\<^sup>2 + (sin (radians b))\<^sup>2) / denom - 1
      in if denom = 0 then
           \<lparr> distance = None,
             details = [Lit ''Division by zero encountered in distance calculation.''] \<rparr>
         else if value_inside_sqrt < 0 then
           \<lparr> distance = None,
             details = [Lit ''Invalid value inside square root in distance calculation.''] \<rparr>
         else
           \<lparr> distance = Some ((cameras_distance self / 2) * sqrt value_inside_sqrt),
             details = [Lit (''Object is '' @ case_text @ ''.'')] \<rparr>)"
  unfolding calculate_distance_known [OF assms(1-3)] triangulate_proper [OF assms(4)] Let_def
  by simp

theorem calculate_distance_formula_witness:
  "observes (observation 320 400 (-10)) (-10) \<and> observes (observation 320 240 8) 8 \<and>
   classify (Num (-10)) (Num 8) = Inr (Some (''between the cameras'', 80, 82)) \<and>
   (0::real) < 180 - (80 + 82) \<and>
   calculate_distance (init 55 0.265) (observation 320 400 (-10)) (observation 320 240 8) =
     \<lparr> distance = Some ((0.265 / 2) *
          sqrt (2 * ((sin (radians 80))\<^sup>2 + (sin (radians 82))\<^sup>2) / (sin (radians 18))\<^sup>2 - 1)),
       details = [Lit ''Object is between the cameras.''] \<rparr>"
proof -
  have c: "classify (Num (-10)) (Num 8) = Inr (Some (''between the cameras'', 80, 82))"
    by (simp add: classify_Num)
  have p: "(0::real) < 180 - (80 + 82)" by simp
  have nz: "sin (radians 18) \<noteq> 0"
    using sin_radians_pos [of 18] by simp
  have v: "\<not> 2 * ((sin (radians 80))\<^sup>2 + (sin (radians 82))\<^sup>2) / (sin (radians 18))\<^sup>2 - 1 < 0"
    using value_inside_sqrt_pos [of 80 82] nz by simp
  have "calculate_distance (init 55 0.265) (observation 320 400 (-10)) (observation 320 240 8) =
     \<lparr> distance = Some ((0.265 / 2) *
          sqrt (2 * ((sin (radians 80))\<^sup>2 + (sin (radians 82))\<^sup>2) / (sin (radians 18))\<^sup>2 - 1)),
       details = [Lit ''Object is between the cameras.''] \<rparr>"
    using calculate_distance_formula [OF observes_observation observes_observation c p,
            of "init 55 0.265" 320 400 320 240] nz v
    by (simp add: Let_def init_def)
  with c p show ?thesis by (simp add: observes_observation)
qed

subsection \<open>An object between the cameras\<close>




subsection \<open>Unknown configurations\<close>

text \<open>
  C4. For two observations with numeric angles \<open>l\<close> and \<open>r\<close> that match none of the three
  sign patterns (which includes a zero on either side), \<open>calculate_distance\<close> returns
  an absent distance and a details text that carries both angle values.
\<close>

theorem calculate_distance_unknown_case:
  assumes "observes left_image l" and "observes right_image r"
    and "\<not> (l < 0 \<and> r > 0)" and "\<not> (l > 0 \<and> r > 0)" and "\<not> (l < 0 \<and> r < 0)"
  shows "calculate_distance self left_image right_image =
          \<lparr> distance = None,
            details = [Lit ''Unknown case based on angles: left='', Val (Num l),
                       Lit '', right='', Val (Num r)] \<rparr>"
proof -
  from assms(3-5) have "classify (Num l) (Num r) = Inr None"
    by (simp add: classify_Num)
  then show ?thesis by (rule calculate_distance_unknown [OF assms(1,2)])
qed

theorem calculate_distance_unknown_case_witness:
  "observes (observation 320 320 0) 0 \<and> observes (observation 320 240 5) 5 \<and>
   \<not> ((0::real) < 0 \<and> (5::real) > 0) \<and> \<not> ((0::real) > 0 \<and> (5::real) > 0) \<and>
   \<not> ((0::real) < 0 \<and> (5::real) < 0) \<and>
   calculate_distance (init 55 0.265) (observation 320 320 0) (observation 320 240 5) =
     \<lparr> distance = None,
       details = [Lit ''Unknown case based on angles: left='', Val (Num 0),
                  Lit '', right='', Val (Num 5)] \<rparr>"
  using calculate_distance_unknown_case
          [where left_image = "observation 320 320 0" and l = 0 and
                 right_image = "observation 320 240 5" and r = 5 and self = "init 55 0.265"]
  by (simp add: observes_observation)

subsection \<open>Degenerate triangles\<close>

text \<open>
  C5. For two observations in one of the three known cases whose internal angles \<open>a\<close> and
  \<open>b\<close> sum to 180 degrees or more, the object angle \<open>180 - (a + b)\<close> is not positive and
  \<open>calculate_distance\<close> returns an absent distance with the degenerate-triangle text. The
  result is the same for every configuration of the object: neither the baseline nor any
  sine enters it.
\<close>

theorem calculate_distance_degenerate:
  assumes "observes left_image l" and "observes right_image r"
    and "classify (Num l) (Num r) = Inr (Some (case_text, a, b))"
    and "a + b \<ge> 180"
  shows "180 - (a + b) \<le> 0 \<and>
         calculate_distance self left_image right_image =
           \<lparr> distance = None,
             details = [Lit ''Invalid internal angles leading to degenerate triangle.''] \<rparr>"
proof -
  from assms(4) have d: "180 - (a + b) \<le> 0" by simp
  show ?thesis
    unfolding calculate_distance_known [OF assms(1-3)] triangulate_degenerate [OF d]
    using d by simp
qed

theorem calculate_distance_degenerate_witness:
  "observes (observation 320 240 10) 10 \<and> observes (observation 320 280 5) 5 \<and>
   classify (Num 10) (Num 5) = Inr (Some (''to the left of the left camera'', 100, 85)) \<and>
   (100::real) + 85 \<ge> 180 \<and>
   calculate_distance (init 55 0.265) (observation 320 240 10) (observation 320 280 5) =
     \<lparr> distance = None,
       details = [Lit ''Invalid internal angles leading to degenerate triangle.''] \<rparr>"
proof -
  have c: "classify (Num 10) (Num 5) = Inr (Some (''to the left of the left camera'', 100, 85))"
    by (simp add: classify_Num)
  have s: "(100::real) + 85 \<ge> 180" by simp
  show ?thesis
    using calculate_distance_degenerate [OF observes_observation observes_observation c s,
            of "init 55 0.265" 320 240 320 280] c
    by (simp add: observes_observation)
qed

subsection \<open>The disparity estimate\<close>

text \<open>
  C6. For two observations whose \<open>obj_center_x\<close> are the numbers \<open>xl\<close> and \<open>xr\<close>, the
  disparity is \<open>xl - xr\<close>; when it is zero \<open>calculate_distance_using_disparity\<close> returns
  an absent distance, otherwise it returns \<open>focal_length * cameras_distance / disparity\<close>;
  with positive focal length and baseline the sign of that distance is the sign of the
  disparity.
\<close>

theorem disparity_estimate:
  assumes "left_image ''obj_center_x'' = Some (Num xl)"
    and "right_image ''obj_center_x'' = Some (Num xr)"
  shows "(xl - xr = 0 \<longrightarrow>
            calculate_distance_using_disparity self left_image right_image =
              \<lparr> distance = None,
                details = [Lit ''Disparity is zero, unable to calculate distance.''] \<rparr>) \<and>
         (xl - xr \<noteq> 0 \<longrightarrow>
            calculate_distance_using_disparity self left_image right_image =
              \<lparr> distance = Some ((focal_length self * cameras_distance self) / (xl - xr)),
                details = [Lit ''Distance calculated using disparity and focal length.''] \<rparr>) \<and>
         (xl - xr \<noteq> 0 \<and> 0 < focal_length self \<and> 0 < cameras_distance self \<longrightarrow>
            (\<exists>d. distance (calculate_distance_using_disparity self left_image right_image) = Some d \<and>
                 sgn d = sgn (xl - xr)))"
proof -
  have r: "calculate_distance_using_disparity self left_image right_image =
     (if xl - xr = 0 then
        \<lparr> distance = None,
          details = [Lit ''Disparity is zero, unable to calculate distance.''] \<rparr>
      else
        \<lparr> distance = Some ((focal_length self * cameras_distance self) / (xl - xr)),
          details = [Lit ''Distance calculated using disparity and focal length.''] \<rparr>)"
    unfolding calculate_distance_using_disparity_def
      disparity_body_Num [of left_image xl right_image xr self, OF assms]
    by simp
  have s: "sgn ((focal_length self * cameras_distance self) / (xl - xr)) = sgn (xl - xr)"
    if "0 < focal_length self" "0 < cameras_distance self"
    using that by (simp add: sgn_divide sgn_mult)
  show ?thesis using r s by simp
qed

theorem disparity_estimate_witness:
  "observation 320 400 (-10) ''obj_center_x'' = Some (Num 400) \<and>
   observation 320 240 8 ''obj_center_x'' = Some (Num 240) \<and>
   observation 320 240 8 ''obj_center_x'' = Some (Num 240) \<and>
   (400::real) - 240 \<noteq> 0 \<and> (400::real) - 400 = 0 \<and>
   calculate_distance_using_disparity \<lparr> fov_horizontal = 55, cameras_distance = 0.25,
       pixel_to_angle_ratio_x = None, focal_length = 600 \<rparr>
       (observation 320 400 (-10)) (observation 320 240 8) =
     \<lparr> distance = Some (15 / 16),
       details = [Lit ''Distance calculated using disparity and focal length.''] \<rparr> \<and>
   calculate_distance_using_disparity \<lparr> fov_horizontal = 55, cameras_distance = 0.25,
       pixel_to_angle_ratio_x = None, focal_length = 600 \<rparr>
       (observation 320 400 (-10)) (observation 320 400 8) =
     \<lparr> distance = None,
       details = [Lit ''Disparity is zero, unable to calculate distance.''] \<rparr> \<and>
   (\<exists>d. distance (calculate_distance_using_disparity \<lparr> fov_horizontal = 55,
          cameras_distance = 0.25, pixel_to_angle_ratio_x = None, focal_length = 600 \<rparr>
          (observation 320 240 8) (observation 320 400 (-10))) = Some d \<and> sgn d = - 1)"
  using disparity_estimate
          [where left_image = "observation 320 400 (-10)" and xl = 400 and
                 right_image = "observation 320 240 8" and xr = 240 and
                 self = "\<lparr> fov_horizontal = 55, cameras_distance = 0.25,
                   pixel_to_angle_ratio_x = None, focal_length = 600 \<rparr>"]
        disparity_estimate
          [where left_image = "observation 320 400 (-10)" and xl = 400 and
                 right_image = "observation 320 400 8" and xr = 400 and
                 self = "\<lparr> fov_horizontal = 55, cameras_distance = 0.25,
                   pixel_to_angle_ratio_x = None, focal_length = 600 \<rparr>"]
        disparity_estimate
          [where left_image = "observation 320 240 8" and xl = 240 and
                 right_image = "observation 320 400 (-10)" and xr = 400 and
                 self = "\<lparr> fov_horizontal = 55, cameras_distance = 0.25,
                   pixel_to_angle_ratio_x = None, focal_length = 600 \<rparr>"]
  by (simp add: observation_def)

subsection \<open>No fault leaves the two methods\<close>



subsection \<open>The focal length\<close>

text \<open>
  C8 (as amended). Construction with field of view \<open>f\<close> sets the focal length to
  \<open>640 / (2 * tan (radians (f / 2)))\<close>; no sequence of later calls of
  \<open>update_pixel_to_angle_ratio\<close>, \<open>calculate_distance\<close> and
  \<open>calculate_distance_using_disparity\<close> changes it; and for \<open>f = 55\<close> it is 614.71 within
  a tolerance of 0.01.
\<close>

theorem focal_length_set_once:
  "focal_length (init fov camdist) = 640 / (2 * tan (radians (fov / 2))) \<and>
   focal_length (foldl after_call (init fov camdist) calls) = focal_length (init fov camdist) \<and>
   \<bar>focal_length (init 55 camdist) - 614.71\<bar> \<le> 0.01"
proof (intro conjI)
  show "focal_length (init fov camdist) = 640 / (2 * tan (radians (fov / 2)))"
    by (simp add: init_def)
  show "focal_length (foldl after_call (init fov camdist) calls) = focal_length (init fov camdist)"
    by (rule foldl_after_call_focal_length)
  show "\<bar>focal_length (init 55 camdist) - 614.71\<bar> \<le> 0.01"
  proof -
    have "focal_length (init 55 camdist) - 614.71 \<le> 0.01"
      using focal_length_55_bounds(2) [of camdist] by simp
    moreover have "- 0.01 \<le> focal_length (init 55 camdist) - 614.71"
      using focal_length_55_bounds(1) [of camdist] by simp
    ultimately show ?thesis by (simp only: abs_le_iff) simp
  qed
qed

text \<open>
  The value the claim gives for \<open>f = 55\<close>, 615.04 within 0.01, is not the value of the
  formula.
\<close>

theorem focal_length_55_is_not_615_04:
  "\<not> \<bar>focal_length (init 55 0.265) - 615.04\<bar> \<le> 0.01"
proof
  assume "\<bar>focal_length (init 55 0.265) - 615.04\<bar> \<le> 0.01"
  then have "615.04 - focal_length (init 55 0.265) \<le> 0.01"
    by (simp only: abs_le_iff) simp
  with focal_length_55_bounds(2) [of "0.265"] show False by simp
qed

subsection \<open>Updating the pixel-to-angle ratio\<close>

text \<open>
  C9 (as amended). For every resolution width \<open>w\<close> other than zero,
  \<open>update_pixel_to_angle_ratio\<close> sets the ratio to \<open>fov_horizontal / w\<close> (0.171875 for a
  field of view of 55 and a width of 320), gives back nothing but the updated object, and
  leaves \<open>fov_horizontal\<close>, \<open>cameras_distance\<close> and \<open>focal_length\<close> unchanged.
\<close>

theorem update_pixel_to_angle_ratio_frame:
  assumes "res_width \<noteq> 0"
  shows "\<exists>self'. update_pixel_to_angle_ratio self res_width = Inr self' \<and>
           pixel_to_angle_ratio_x self' = Some (fov_horizontal self / res_width) \<and>
           fov_horizontal self' = fov_horizontal self \<and>
           cameras_distance self' = cameras_distance self \<and>
           focal_length self' = focal_length self"
  using assms by (simp add: update_pixel_to_angle_ratio_def)

theorem update_pixel_to_angle_ratio_frame_witness:
  "(320::real) \<noteq> 0 \<and>
   (\<exists>self'. update_pixel_to_angle_ratio (init 55 0.265) 320 = Inr self' \<and>
      pixel_to_angle_ratio_x self' = Some 0.171875 \<and>
      fov_horizontal self' = 55 \<and> cameras_distance self' = 0.265 \<and>
      focal_length self' = focal_length (init 55 0.265))"
  using update_pixel_to_angle_ratio_frame [of 320 "init 55 0.265"]
  by (simp add: init_def)

text \<open>For a width of zero the division raises and no ratio is set.\<close>

theorem update_pixel_to_angle_ratio_zero_width:
  "update_pixel_to_angle_ratio (init 55 0.265) 0 = Inl ZeroDivisionError"
  by (simp add: update_pixel_to_angle_ratio_def)

subsection \<open>The result depends on the two angles and the baseline only\<close>

text \<open>
  C10. For two calls of \<open>calculate_distance\<close> whose dictionaries all hold the three
  required keys and agree on \<open>angle_of_view_x\<close> left and right, on objects with the same
  baseline, the results are equal: distance and details. The values under \<open>img_center_x\<close>
  and \<open>obj_center_x\<close> and the state of \<open>pixel_to_angle_ratio_x\<close> do not enter.
\<close>

theorem calculate_distance_depends_on_angles_only:
  assumes "has_keys left_image" and "has_keys right_image"
    and "has_keys left_image'" and "has_keys right_image'"
    and "left_image' ''angle_of_view_x'' = left_image ''angle_of_view_x''"
    and "right_image' ''angle_of_view_x'' = right_image ''angle_of_view_x''"
    and "cameras_distance self' = cameras_distance self"
  shows "calculate_distance self' left_image' right_image' =
         calculate_distance self left_image right_image"
proof -
  from calculate_distance_body_has_keys [OF assms(1,2), of self]
  obtain vl vr where a: "left_image ''angle_of_view_x'' = Some vl"
      "right_image ''angle_of_view_x'' = Some vr"
    and b: "calculate_distance_body self left_image right_image =
     (case classify vl vr of
        Inl e \<Rightarrow> Inl e
      | Inr None \<Rightarrow>
          Inr \<lparr> distance = None,
                details = [Lit ''Unknown case based on angles: left='', Val vl,
                           Lit '', right='', Val vr] \<rparr>
      | Inr (Some (c, a, b)) \<Rightarrow> Inr (triangulate (cameras_distance self) c a b))"
    by blast
  from calculate_distance_body_has_keys [OF assms(3,4), of self']
  obtain vl' vr' where a': "left_image' ''angle_of_view_x'' = Some vl'"
      "right_image' ''angle_of_view_x'' = Some vr'"
    and b': "calculate_distance_body self' left_image' right_image' =
     (case classify vl' vr' of
        Inl e \<Rightarrow> Inl e
      | Inr None \<Rightarrow>
          Inr \<lparr> distance = None,
                details = [Lit ''Unknown case based on angles: left='', Val vl',
                           Lit '', right='', Val vr'] \<rparr>
      | Inr (Some (c, a, b)) \<Rightarrow> Inr (triangulate (cameras_distance self') c a b))"
    by blast
  from a a' assms(5,6) have eq: "vl' = vl" "vr' = vr" by simp_all
  show ?thesis
    unfolding calculate_distance_def b b' eq assms(7) by (rule refl)
qed

theorem calculate_distance_depends_on_angles_only_witness:
  "has_keys (observation 320 400 (-10)) \<and> has_keys (observation 320 240 8) \<and>
   has_keys (observation 160 7 (-10)) \<and> has_keys (observation 1000 0 8) \<and>
   observation 160 7 (-10) ''angle_of_view_x'' = observation 320 400 (-10) ''angle_of_view_x'' \<and>
   observation 1000 0 8 ''angle_of_view_x'' = observation 320 240 8 ''angle_of_view_x'' \<and>
   cameras_distance ((init 55 0.265)\<lparr>pixel_to_angle_ratio_x := Some (55 / 320)\<rparr>) =
     cameras_distance (init 55 0.265) \<and>
   calculate_distance ((init 55 0.265)\<lparr>pixel_to_angle_ratio_x := Some (55 / 320)\<rparr>)
       (observation 160 7 (-10)) (observation 1000 0 8) =
     calculate_distance (init 55 0.265) (observation 320 400 (-10)) (observation 320 240 8)"
proof -
  have a: "observation 160 7 (-10) ''angle_of_view_x'' =
           observation 320 400 (-10) ''angle_of_view_x''"
    by (simp add: observation_angle)
  have b: "observation 1000 0 8 ''angle_of_view_x'' = observation 320 240 8 ''angle_of_view_x''"
    by (simp add: observation_angle)
  have c: "cameras_distance ((init 55 0.265)\<lparr>pixel_to_angle_ratio_x := Some (55 / 320)\<rparr>) =
     cameras_distance (init 55 0.265)"
    by simp
  from calculate_distance_depends_on_angles_only
         [OF has_keys_observation has_keys_observation has_keys_observation
             has_keys_observation a b c]
  show ?thesis using a b c by (simp add: has_keys_observation)
qed

end
